theory Spec2Isabelle
  imports Complex_Main
begin

section \<open>The session controller (src/game/GameManager.js)\<close>

text \<open>
  JavaScript numbers are modelled exactly: the score, the level index and the high scores
  as \<open>int\<close>, times, speeds and coordinates as \<open>real\<close>. The rounding of IEEE doubles
  is not modelled; every concrete input used below is a dyadic rational that doubles
  represent exactly.
\<close>

datatype GameState = MENU | PLAYING | LEVEL_COMPLETE | GAME_OVER

record LevelConfig =
  level_id :: nat
  name :: string
  description :: string
  targetCount :: nat
  targetSpeed :: real
  scoreToComplete :: int
  timeLimit :: real
  movingTargets :: bool

definition LEVELS :: "LevelConfig list" where
  "LEVELS =
    [\<lparr>level_id = 1, name = ''Beginner'', description = ''Learn the basics'',
      targetCount = 3, targetSpeed = 0, scoreToComplete = 30, timeLimit = 60,
      movingTargets = False\<rparr>,
     \<lparr>level_id = 2, name = ''Intermediate'', description = ''More targets'',
      targetCount = 5, targetSpeed = 0, scoreToComplete = 80, timeLimit = 60,
      movingTargets = False\<rparr>,
     \<lparr>level_id = 3, name = ''Advanced'', description = ''Faster respawn'',
      targetCount = 5, targetSpeed = 0, scoreToComplete = 150, timeLimit = 45,
      movingTargets = False\<rparr>,
     \<lparr>level_id = 4, name = ''Expert'', description = ''Moving targets'',
      targetCount = 5, targetSpeed = 3 / 2, scoreToComplete = 200, timeLimit = 60,
      movingTargets = True\<rparr>,
     \<lparr>level_id = 5, name = ''Master'', description = ''Ultimate challenge'',
      targetCount = 7, targetSpeed = 5 / 2, scoreToComplete = 300, timeLimit = 90,
      movingTargets = True\<rparr>]"

record Settings =
  leftHandedMode :: bool
  musicVolume :: real
  sfxVolume :: real

definition DEFAULT_SETTINGS :: Settings where
  "DEFAULT_SETTINGS = \<lparr>leftHandedMode = False, musicVolume = 1 / 2, sfxVolume = 1\<rparr>"

text \<open>
  The two items the controller keeps in localStorage. An absent item is \<open>None\<close>.
  A store that throws is caught by the source and changes nothing in memory; it is
  not modelled.
\<close>

record Storage =
  settings_item :: "Settings option"
  scores_item :: "int list option"

text \<open>
  The four observer slots (onStateChange, onScoreChange, onTimeChange,
  onSettingsChange) are modelled by the sequence of calls made to them, oldest first,
  with the argument each call passes.
\<close>

datatype Notification =
  StateChange GameState
  | ScoreChange int
  | TimeChange real
  | SettingsChange Settings

record GameManager =
  state :: GameState
  currentLevel :: int
  score :: int
  timeRemaining :: real
  settings :: Settings
  highScores :: "int list"
  localStorage :: Storage
  notified :: "Notification list"

text \<open>A JavaScript array read: an index outside the array yields undefined (\<open>None\<close>).\<close>

definition array_get :: "'a list \<Rightarrow> int \<Rightarrow> 'a option" where
  "array_get xs i = (if 0 \<le> i \<and> i < int (length xs) then Some (xs ! nat i) else None)"

definition loadSettings :: "GameManager \<Rightarrow> GameManager" where
  "loadSettings g =
    (let g1 = (case settings_item (localStorage g) of
                 Some saved \<Rightarrow> g\<lparr>settings := saved\<rparr>
               | None \<Rightarrow> g)
     in case scores_item (localStorage g1) of
          Some scores \<Rightarrow> g1\<lparr>highScores := scores\<rparr>
        | None \<Rightarrow> g1)"

definition new_GameManager :: "Storage \<Rightarrow> GameManager" where
  "new_GameManager store =
    loadSettings
      \<lparr>state = MENU, currentLevel = 0, score = 0, timeRemaining = 0,
       settings = DEFAULT_SETTINGS, highScores = [0, 0, 0, 0, 0],
       localStorage = store, notified = []\<rparr>"

definition saveSettings :: "GameManager \<Rightarrow> GameManager" where
  "saveSettings g =
    g\<lparr>localStorage :=
        \<lparr>settings_item = Some (settings g), scores_item = Some (highScores g)\<rparr>\<rparr>"

datatype SettingUpdate = LeftHandedMode bool | MusicVolume real | SfxVolume real

fun assign_setting :: "SettingUpdate \<Rightarrow> Settings \<Rightarrow> Settings" where
  "assign_setting (LeftHandedMode b) st = st\<lparr>leftHandedMode := b\<rparr>"
| "assign_setting (MusicVolume v) st = st\<lparr>musicVolume := v\<rparr>"
| "assign_setting (SfxVolume v) st = st\<lparr>sfxVolume := v\<rparr>"

definition setSetting :: "SettingUpdate \<Rightarrow> GameManager \<Rightarrow> GameManager" where
  "setSetting kv g =
    (let g1 = saveSettings (g\<lparr>settings := assign_setting kv (settings g)\<rparr>)
     in g1\<lparr>notified := notified g1 @ [SettingsChange (settings g1)]\<rparr>)"

definition toggleLeftHandedMode :: "GameManager \<Rightarrow> GameManager" where
  "toggleLeftHandedMode g = setSetting (LeftHandedMode (\<not> leftHandedMode (settings g))) g"

definition getCurrentLevelConfig :: "GameManager \<Rightarrow> LevelConfig" where
  "getCurrentLevelConfig g =
    (if currentLevel g < 0 \<or> currentLevel g \<ge> int (length LEVELS)
     then LEVELS ! 0
     else LEVELS ! nat (currentLevel g))"

definition setState :: "GameState \<Rightarrow> GameManager \<Rightarrow> GameManager" where
  "setState newState g =
    g\<lparr>state := newState, notified := notified g @ [StateChange newState]\<rparr>"

definition startLevel :: "int \<Rightarrow> GameManager \<Rightarrow> GameManager" where
  "startLevel levelIndex g =
    (let levelIndex' =
           (if levelIndex < 0 \<or> levelIndex \<ge> int (length LEVELS) then 0 else levelIndex);
         g1 = g\<lparr>currentLevel := levelIndex', score := 0\<rparr>;
         levelConfig = getCurrentLevelConfig g1;
         g2 = setState PLAYING (g1\<lparr>timeRemaining := timeLimit levelConfig\<rparr>)
     in g2\<lparr>notified := notified g2 @ [ScoreChange (score g2)]\<rparr>)"

text \<open>
  In completeLevel the comparison \<open>score > highScores[currentLevel]\<close> is false when the
  array has no such entry (a comparison with undefined), so nothing is stored then.
\<close>

definition completeLevel :: "GameManager \<Rightarrow> GameManager" where
  "completeLevel g =
    setState LEVEL_COMPLETE
      (case array_get (highScores g) (currentLevel g) of
         Some best \<Rightarrow>
           if score g > best
           then saveSettings (g\<lparr>highScores := (highScores g)[nat (currentLevel g) := score g]\<rparr>)
           else g
       | None \<Rightarrow> g)"

definition addScore :: "int \<Rightarrow> GameManager \<Rightarrow> GameManager" where
  "addScore points g =
    (let g1 = g\<lparr>score := score g + points\<rparr>;
         g2 = g1\<lparr>notified := notified g1 @ [ScoreChange (score g1)]\<rparr>;
         levelConfig = getCurrentLevelConfig g2
     in if score g2 \<ge> scoreToComplete levelConfig then completeLevel g2 else g2)"

definition gameOver :: "GameManager \<Rightarrow> GameManager" where
  "gameOver g = setState GAME_OVER g"

definition updateTime :: "real \<Rightarrow> GameManager \<Rightarrow> GameManager" where
  "updateTime delta g =
    (if state g \<noteq> PLAYING then g
     else
       let g1 = g\<lparr>timeRemaining := timeRemaining g - delta\<rparr>;
           g2 = g1\<lparr>notified := notified g1 @ [TimeChange (timeRemaining g1)]\<rparr>
       in if timeRemaining g2 \<le> 0 then gameOver (g2\<lparr>timeRemaining := 0\<rparr>) else g2)"

definition goToMenu :: "GameManager \<Rightarrow> GameManager" where
  "goToMenu g = setState MENU g"

definition nextLevel :: "GameManager \<Rightarrow> GameManager" where
  "nextLevel g =
    (if currentLevel g < int (length LEVELS) - 1
     then startLevel (currentLevel g + 1) g
     else goToMenu g)"

definition restartLevel :: "GameManager \<Rightarrow> GameManager" where
  "restartLevel g = startLevel (currentLevel g) g"

definition isLeftHanded :: "GameManager \<Rightarrow> bool" where
  "isLeftHanded g = leftHandedMode (settings g)"

definition getBlasterHand :: "GameManager \<Rightarrow> string" where
  "getBlasterHand g = (if leftHandedMode (settings g) then ''left'' else ''right'')"



text \<open>The controller as the module constructs it when nothing is stored.\<close>

definition gameManager :: GameManager where
  "gameManager = new_GameManager \<lparr>settings_item = None, scores_item = None\<rparr>"

text \<open>
  The catalog contract of the specification, in its words: \<open>get(index)\<close> fails with
  OutOfRange if the index is not in \<open>[0, count)\<close>.
\<close>

datatype CatalogError = OutOfRange

definition catalog_get :: "int \<Rightarrow> CatalogError + LevelConfig" where
  "catalog_get i =
    (if 0 \<le> i \<and> i < int (length LEVELS) then Inr (LEVELS ! nat i) else Inl OutOfRange)"

section \<open>The arena (the frame loop and its helpers in the main module)\<close>

text \<open>
  three.js vectors and objects, as far as the frame loop uses them. The components of a
  vector are named \<open>vx\<close>, \<open>vy\<close>, \<open>vz\<close>. A projectile is an object with
  userData \<open>velocity\<close> and \<open>timeToLive\<close>; a target is an object with userData
  \<open>moveDirection\<close>, \<open>moveSpeed\<close> and \<open>isMoving\<close>.
\<close>

record Vector3 =
  vx :: real
  vy :: real
  vz :: real

definition add :: "Vector3 \<Rightarrow> Vector3 \<Rightarrow> Vector3" where
  "add a b = \<lparr>vx = vx a + vx b, vy = vy a + vy b, vz = vz a + vz b\<rparr>"

definition multiplyScalar :: "Vector3 \<Rightarrow> real \<Rightarrow> Vector3" where
  "multiplyScalar a k = \<lparr>vx = vx a * k, vy = vy a * k, vz = vz a * k\<rparr>"

definition distanceToSquared :: "Vector3 \<Rightarrow> Vector3 \<Rightarrow> real" where
  "distanceToSquared a b = (vx a - vx b)\<^sup>2 + (vy a - vy b)\<^sup>2 + (vz a - vz b)\<^sup>2"

definition distanceTo :: "Vector3 \<Rightarrow> Vector3 \<Rightarrow> real" where
  "distanceTo a b = sqrt (distanceToSquared a b)"

definition length_v :: "Vector3 \<Rightarrow> real" where
  "length_v a = sqrt ((vx a)\<^sup>2 + (vy a)\<^sup>2 + (vz a)\<^sup>2)"

text \<open>three.js divides by the length, or by 1 when the length is 0.\<close>

definition normalize :: "Vector3 \<Rightarrow> Vector3" where
  "normalize a =
    (let l = (if length_v a = 0 then 1 else length_v a)
     in \<lparr>vx = vx a / l, vy = vy a / l, vz = vz a / l\<rparr>)"

record Object3D =
  visible :: bool
  position :: Vector3
  scale :: Vector3

record Bullet = Object3D +
  uuid :: nat
  velocity :: Vector3
  timeToLive :: real

record Target = Object3D +
  moveDirection :: Vector3
  moveSpeed :: real
  isMoving :: bool

definition bulletSpeed :: real where
  "bulletSpeed = 10"

definition bulletTimeToLive :: real where
  "bulletTimeToLive = 1"

text \<open>
  The module's state. \<open>bullets\<close> is the object keyed by uuid, in insertion order
  (the order Object.values walks it). \<open>targetModel\<close> is \<open>None\<close> until the
  target asset has loaded. Math.random is the sequence \<open>random_src\<close> read at
  \<open>random_pos\<close>. \<open>tweens\<close> lists, oldest first, the pool indices of the targets on
  which a shrink tween has been started; the tweens themselves and the respawn timer run
  in the animation library and the host.
\<close>

record World =
  gm :: GameManager
  bullets :: "Bullet list"
  targets :: "Target list"
  targetModel :: "Target option"
  random_src :: "nat \<Rightarrow> real"
  random_pos :: nat
  tweens :: "nat list"

definition delete_bullet :: "nat \<Rightarrow> Bullet list \<Rightarrow> Bullet list" where
  "delete_bullet u bs = filter (\<lambda>b. uuid b \<noteq> u) bs"

text \<open>A bullet mutated in place is seen under its key, if the key is still there.\<close>

definition mutate_bullet :: "Bullet \<Rightarrow> Bullet list \<Rightarrow> Bullet list" where
  "mutate_bullet b' bs = map (\<lambda>b. if uuid b = uuid b' then b' else b) bs"

text \<open>An assignment \<open>bullets[uuid] = bullet\<close>: in place for a known key, else appended.\<close>

fun assign_bullet :: "Bullet \<Rightarrow> Bullet list \<Rightarrow> Bullet list" where
  "assign_bullet b' [] = [b']"
| "assign_bullet b' (b # bs) = (if uuid b = uuid b' then b' # bs else b # assign_bullet b' bs)"

text \<open>
  The part of initializeTargets that follows the choice of the target: it is shown, put
  at a random place, and given the level's movement data. Math.random is read five
  times, in the order of the source.
\<close>

definition place_target :: "LevelConfig \<Rightarrow> World \<Rightarrow> Target \<Rightarrow> Target" where
  "place_target levelConfig w target =
    (let r = (\<lambda>k. random_src w (random_pos w + k))
     in target
        \<lparr>visible := True,
         scale := \<lparr>vx = 1, vy = 1, vz = 1\<rparr>,
         position := \<lparr>vx = r 0 * 10 - 5, vy = r 1 * 2 + 1, vz = - r 2 * 5 - 5\<rparr>,
         moveDirection := normalize \<lparr>vx = r 3 - 1 / 2, vy = r 4 - 1 / 2, vz = 0\<rparr>,
         moveSpeed := targetSpeed levelConfig,
         isMoving := movingTargets levelConfig\<rparr>)"

text \<open>One round of the for loop of initializeTargets, at index \<open>i\<close>.\<close>

definition initializeTargets_round :: "LevelConfig \<Rightarrow> nat \<Rightarrow> World \<Rightarrow> World" where
  "initializeTargets_round levelConfig i w =
    (if i < length (targets w)
     then w\<lparr>targets := (targets w)[i := place_target levelConfig w (targets w ! i)],
            random_pos := random_pos w + 5\<rparr>
     else case targetModel w of
            Some model \<Rightarrow>
              w\<lparr>targets := targets w @ [place_target levelConfig w model],
                random_pos := random_pos w + 5\<rparr>
          | None \<Rightarrow> w)"

definition initializeTargets :: "LevelConfig \<Rightarrow> World \<Rightarrow> World" where
  "initializeTargets levelConfig w =
    fold (initializeTargets_round levelConfig) [0..<targetCount levelConfig]
      (w\<lparr>targets := map (\<lambda>target. target\<lparr>visible := False\<rparr>) (targets w)\<rparr>)"

definition clearBullets :: "World \<Rightarrow> World" where
  "clearBullets w = w\<lparr>bullets := []\<rparr>"

text \<open>The state observer registered by setupScene, without the menus and the HUD.\<close>

fun onGameStateChange :: "GameState \<Rightarrow> World \<Rightarrow> World" where
  "onGameStateChange MENU w =
    (clearBullets w)\<lparr>targets := map (\<lambda>target. target\<lparr>visible := False\<rparr>) (targets w)\<rparr>"
| "onGameStateChange PLAYING w = initializeTargets (getCurrentLevelConfig (gm w)) w"
| "onGameStateChange LEVEL_COMPLETE w = w"
| "onGameStateChange GAME_OVER w = w"

text \<open>
  A controller method run from the main module: the calls it makes to the observers
  reach the arena. The observers of the main module never write to the controller, and
  the only controller field they read for the arena is the level index, which no method
  changes after its call to setState; so running them on the method's result, in the
  order of the calls, gives what the synchronous calls give.
\<close>

fun observe :: "Notification \<Rightarrow> World \<Rightarrow> World" where
  "observe (StateChange newState) w = onGameStateChange newState w"
| "observe (ScoreChange n) w = w"
| "observe (TimeChange t) w = w"
| "observe (SettingsChange st) w = w"

definition call :: "(GameManager \<Rightarrow> GameManager) \<Rightarrow> World \<Rightarrow> World" where
  "call method w =
    (let g' = method (gm w)
     in fold observe (drop (length (notified (gm w))) (notified g')) (w\<lparr>gm := g'\<rparr>))"

text \<open>
  The buttons of the menu and of the result screen, by the controller method their click
  handler calls. handleUIInteraction is given the buttons clicked in this frame, in
  order.
\<close>

datatype Button = LevelButton nat | ToggleButton | NextLevelButton | MenuButton | RetryButton

fun handleClick :: "Button \<Rightarrow> World \<Rightarrow> World" where
  "handleClick (LevelButton index) w = call (startLevel (int index)) w"
| "handleClick ToggleButton w = call toggleLeftHandedMode w"
| "handleClick NextLevelButton w = call nextLevel w"
| "handleClick MenuButton w = call goToMenu w"
| "handleClick RetryButton w = call restartLevel w"

definition handleUIInteraction :: "Button list \<Rightarrow> World \<Rightarrow> World" where
  "handleUIInteraction clicked w = fold handleClick clicked w"

text \<open>
  A trigger click that produces a bullet: the clone's uuid, the world position of the
  bullet prototype and the forward vector turned by its world orientation.
\<close>

record Shot =
  shot_uuid :: nat
  shot_position :: Vector3
  shot_direction :: Vector3

definition handleBlasterInput :: "Shot option \<Rightarrow> World \<Rightarrow> World" where
  "handleBlasterInput trigger w =
    (if state (gm w) \<noteq> PLAYING then w
     else case trigger of
            None \<Rightarrow> w
          | Some shot \<Rightarrow>
              w\<lparr>bullets :=
                  assign_bullet
                    \<lparr>visible = True, position = shot_position shot,
                     scale = \<lparr>vx = 1, vy = 1, vz = 1\<rparr>, uuid = shot_uuid shot,
                     velocity = multiplyScalar (shot_direction shot) bulletSpeed,
                     timeToLive = bulletTimeToLive\<rparr>
                    (bullets w)\<rparr>)"

text \<open>The body of the inner forEach of updateBullets, for one visible target.\<close>

definition test_target :: "Bullet \<Rightarrow> nat \<times> Target \<Rightarrow> World \<Rightarrow> World" where
  "test_target bullet it w =
    (if distanceTo (position (snd it)) (position bullet) < 1
     then call (addScore 10)
            (w\<lparr>bullets := delete_bullet (uuid bullet) (bullets w),
               tweens := tweens w @ [fst it]\<rparr>)
     else w)"

text \<open>The body of the outer forEach of updateBullets, for one bullet.\<close>

definition update_bullet :: "real \<Rightarrow> Bullet \<Rightarrow> World \<Rightarrow> World" where
  "update_bullet delta bullet w =
    (if timeToLive bullet < 0
     then w\<lparr>bullets := delete_bullet (uuid bullet) (bullets w)\<rparr>
     else
       let bullet' = bullet
             \<lparr>position := add (position bullet) (multiplyScalar (velocity bullet) delta),
              timeToLive := timeToLive bullet - delta\<rparr>;
           w1 = w\<lparr>bullets := mutate_bullet bullet' (bullets w)\<rparr>
       in fold (test_target bullet')
            (filter (\<lambda>it. visible (snd it)) (enumerate 0 (targets w1))) w1)"

definition updateBullets :: "real \<Rightarrow> World \<Rightarrow> World" where
  "updateBullets delta w =
    (if state (gm w) \<noteq> PLAYING then w
     else fold (update_bullet delta) (bullets w) w)"

definition move_target :: "real \<Rightarrow> LevelConfig \<Rightarrow> Target \<Rightarrow> Target" where
  "move_target delta levelConfig target =
    (let speed = (if moveSpeed target = 0 then targetSpeed levelConfig else moveSpeed target);
         direction = moveDirection target;
         p = (position target)
               \<lparr>vx := vx (position target) + vx direction * speed * delta,
                vy := vy (position target) + vy direction * speed * delta\<rparr>;
         d1 = (if vx p < - 5 \<or> vx p > 5 then direction\<lparr>vx := vx direction * - 1\<rparr>
               else direction);
         d2 = (if vy p < 1 / 2 \<or> vy p > 4 then d1\<lparr>vy := vy d1 * - 1\<rparr> else d1)
     in target\<lparr>position := p, moveDirection := d2\<rparr>)"

definition updateTargets :: "real \<Rightarrow> World \<Rightarrow> World" where
  "updateTargets delta w =
    (if state (gm w) \<noteq> PLAYING then w
     else
       let levelConfig = getCurrentLevelConfig (gm w)
       in if \<not> movingTargets levelConfig then w
          else w\<lparr>targets :=
                   map (\<lambda>target. if visible target \<and> isMoving target
                                  then move_target delta levelConfig target else target)
                     (targets w)\<rparr>)"

text \<open>
  What one frame receives from outside: the buttons clicked, the shot fired if any, and
  what the animation library's tick does to the targets (the callbacks the module gives
  to it write target fields only).
\<close>

record FrameInput =
  clicked :: "Button list"
  trigger :: "Shot option"
  gsap_tick :: "real \<Rightarrow> Target list \<Rightarrow> Target list"

definition onFrame :: "real \<Rightarrow> FrameInput \<Rightarrow> World \<Rightarrow> World" where
  "onFrame delta inp w =
    (let w1 = handleUIInteraction (clicked inp) w;
         w2 = call (updateTime delta) w1;
         w3 = handleBlasterInput (trigger inp) w2;
         w4 = updateBullets delta w3;
         w5 = updateTargets delta w4
     in w5\<lparr>targets := gsap_tick inp delta (targets w5)\<rparr>)"




text \<open>
  Names for what updateBullets does to one bullet that is not yet expired (it is moved,
  then its time to live is reduced), for the visible targets within the collision radius
  of a bullet, each with its pool index, and for the bullets of one tick that are moved.
\<close>

definition advance :: "real \<Rightarrow> Bullet \<Rightarrow> Bullet" where
  "advance delta bullet =
    bullet\<lparr>position := add (position bullet) (multiplyScalar (velocity bullet) delta),
           timeToLive := timeToLive bullet - delta\<rparr>"

definition in_range :: "Target list \<Rightarrow> Bullet \<Rightarrow> (nat \<times> Target) list" where
  "in_range ts bullet =
    filter (\<lambda>it. visible (snd it) \<and> distanceTo (position (snd it)) (position bullet) < 1)
      (enumerate 0 ts)"

definition moved_bullets :: "real \<Rightarrow> Bullet list \<Rightarrow> Bullet list" where
  "moved_bullets delta bs = map (advance delta) (filter (\<lambda>b. \<not> timeToLive b < 0) bs)"

text \<open>
  A level-1 session just started, with three visible targets inside the arena bounds,
  the first two half a unit apart, and one bullet flying down the z axis at the launch
  speed, which the next tick of an eighth of a second puts between the two.
\<close>

definition two_close_targets :: World where
  "two_close_targets =
    \<lparr>gm = startLevel 0 gameManager,
     bullets =
       [\<lparr>visible = True, position = \<lparr>vx = 1 / 4, vy = 1, vz = - (19 / 4)\<rparr>,
         scale = \<lparr>vx = 1, vy = 1, vz = 1\<rparr>, uuid = 1,
         velocity = \<lparr>vx = 0, vy = 0, vz = - 10\<rparr>, timeToLive = 1 / 2\<rparr>],
     targets =
       [\<lparr>visible = True, position = \<lparr>vx = 0, vy = 1, vz = - 6\<rparr>,
         scale = \<lparr>vx = 1, vy = 1, vz = 1\<rparr>,
         moveDirection = \<lparr>vx = 1, vy = 0, vz = 0\<rparr>, moveSpeed = 0, isMoving = False\<rparr>,
        \<lparr>visible = True, position = \<lparr>vx = 1 / 2, vy = 1, vz = - 6\<rparr>,
         scale = \<lparr>vx = 1, vy = 1, vz = 1\<rparr>,
         moveDirection = \<lparr>vx = 1, vy = 0, vz = 0\<rparr>, moveSpeed = 0, isMoving = False\<rparr>,
        \<lparr>visible = True, position = \<lparr>vx = 4, vy = 3, vz = - 9\<rparr>,
         scale = \<lparr>vx = 1, vy = 1, vz = 1\<rparr>,
         moveDirection = \<lparr>vx = 1, vy = 0, vz = 0\<rparr>, moveSpeed = 0, isMoving = False\<rparr>],
     targetModel = None, random_src = (\<lambda>k. 0), random_pos = 0, tweens = []\<rparr>"

text \<open>
  A level-1 session just started with one target and two bullets: the first has a
  negative time to live, the second has a sixteenth of a second left. Neither comes
  near the target.
\<close>

definition spent_and_late_bullets :: World where
  "spent_and_late_bullets =
    \<lparr>gm = startLevel 0 gameManager,
     bullets =
       [\<lparr>visible = True, position = \<lparr>vx = 0, vy = 1, vz = 45 / 4\<rparr>,
         scale = \<lparr>vx = 1, vy = 1, vz = 1\<rparr>, uuid = 1,
         velocity = \<lparr>vx = 0, vy = 0, vz = 10\<rparr>, timeToLive = - (1 / 8)\<rparr>,
        \<lparr>visible = True, position = \<lparr>vx = 4, vy = 0, vz = - 8\<rparr>,
         scale = \<lparr>vx = 1, vy = 1, vz = 1\<rparr>, uuid = 2,
         velocity = \<lparr>vx = 0, vy = 0, vz = - 10\<rparr>, timeToLive = 1 / 16\<rparr>],
     targets =
       [\<lparr>visible = True, position = \<lparr>vx = 0, vy = 1, vz = - 6\<rparr>,
         scale = \<lparr>vx = 1, vy = 1, vz = 1\<rparr>,
         moveDirection = \<lparr>vx = 1, vy = 0, vz = 0\<rparr>, moveSpeed = 0, isMoving = False\<rparr>],
     targetModel = None, random_src = (\<lambda>k. 0), random_pos = 0, tweens = []\<rparr>"

text \<open>The frame up to and including the timer step: the first two calls of onFrame.\<close>

definition frame_after_timer :: "real \<Rightarrow> FrameInput \<Rightarrow> World \<Rightarrow> World" where
  "frame_after_timer delta inp w = call (updateTime delta) (handleUIInteraction (clicked inp) w)"

text \<open>A frame with no click and no shot, in which the animation library leaves the targets.\<close>

definition idle :: FrameInput where
  "idle = \<lparr>clicked = [], trigger = None, gsap_tick = (\<lambda>delta ts. ts)\<rparr>"

text \<open>
  The world \<open>two_close_targets\<close> with 20 points scored, and with a sixteenth of a
  second left on the clock.
\<close>

definition near_goal :: World where
  "near_goal = two_close_targets\<lparr>gm := addScore 10 (addScore 10 (startLevel 0 gameManager))\<rparr>"

definition out_of_time :: World where
  "out_of_time = two_close_targets\<lparr>gm := updateTime (959 / 16) (startLevel 0 gameManager)\<rparr>"

text \<open>
  A target as initializeTargets leaves it when it activates it for a level: visible,
  inside the arena bounds, with the level's speed and movement flag.
\<close>

definition placed :: "LevelConfig \<Rightarrow> Target \<Rightarrow> bool" where
  "placed levelConfig target =
    (visible target
     \<and> - 5 \<le> vx (position target) \<and> vx (position target) \<le> 5
     \<and> 1 \<le> vy (position target) \<and> vy (position target) \<le> 3
     \<and> - 10 \<le> vz (position target) \<and> vz (position target) \<le> - 5
     \<and> moveSpeed target = targetSpeed levelConfig
     \<and> isMoving target = movingTargets levelConfig)"

text \<open>
  Math.random returns numbers from 0 up to, not including, 1: here, for the next
  \<open>n\<close> calls.
\<close>

definition random_ok :: "World \<Rightarrow> nat \<Rightarrow> bool" where
  "random_ok w n =
    list_all (\<lambda>r. 0 \<le> r \<and> r < 1) (map (random_src w) [random_pos w..<random_pos w + n])"

text \<open>
  The module before the target asset has loaded (no model, an empty pool), and a module
  with the model loaded and a pool of one target left by an earlier level.
\<close>

definition model_not_loaded :: World where
  "model_not_loaded =
    \<lparr>gm = gameManager, bullets = [], targets = [], targetModel = None,
     random_src = (\<lambda>k. 1 / 2), random_pos = 0, tweens = []\<rparr>"

definition pool_of_one :: World where
  "pool_of_one =
    \<lparr>gm = gameManager, bullets = [],
     targets =
       [\<lparr>visible = True, position = \<lparr>vx = 3, vy = 2, vz = - 9\<rparr>,
         scale = \<lparr>vx = 0, vy = 0, vz = 0\<rparr>,
         moveDirection = \<lparr>vx = 1, vy = 0, vz = 0\<rparr>, moveSpeed = 5 / 2, isMoving = True\<rparr>],
     targetModel =
       Some \<lparr>visible = True, position = \<lparr>vx = 0, vy = 0, vz = 0\<rparr>,
         scale = \<lparr>vx = 1, vy = 1, vz = 1\<rparr>,
         moveDirection = \<lparr>vx = 0, vy = 0, vz = 0\<rparr>, moveSpeed = 0, isMoving = False\<rparr>,
     random_src = (\<lambda>k. 1 / 2), random_pos = 0, tweens = []\<rparr>"

section \<open>Basic facts about the controller\<close>

lemma length_LEVELS: "length LEVELS = 5"
  by (simp add: LEVELS_def)

lemma gameManager_fields:
  "state gameManager = MENU" "score gameManager = 0" "currentLevel gameManager = 0"
  "timeRemaining gameManager = 0" "highScores gameManager = [0, 0, 0, 0, 0]"
  "notified gameManager = []"
  by (simp_all add: gameManager_def new_GameManager_def loadSettings_def)

lemma getCurrentLevelConfig_cases:
  "getCurrentLevelConfig g =
    (if currentLevel g = 1 then LEVELS ! 1
     else if currentLevel g = 2 then LEVELS ! 2
     else if currentLevel g = 3 then LEVELS ! 3
     else if currentLevel g = 4 then LEVELS ! 4
     else LEVELS ! 0)"
proof -
  have "currentLevel g < 0 \<or> currentLevel g \<ge> 5 \<or> currentLevel g = 0 \<or> currentLevel g = 1
    \<or> currentLevel g = 2 \<or> currentLevel g = 3 \<or> currentLevel g = 4"
    by arith
  then show ?thesis
    by (auto simp: getCurrentLevelConfig_def length_LEVELS)
qed

lemma getCurrentLevelConfig_cong:
  "currentLevel g' = currentLevel g \<Longrightarrow> getCurrentLevelConfig g' = getCurrentLevelConfig g"
  by (simp add: getCurrentLevelConfig_def)


lemma score_addScore: "score (addScore p g) = score g + p"
  by (simp add: addScore_def completeLevel_def setState_def saveSettings_def Let_def
      split: option.splits)

lemma currentLevel_addScore: "currentLevel (addScore p g) = currentLevel g"
  by (simp add: addScore_def completeLevel_def setState_def saveSettings_def Let_def
      split: option.splits)

lemma getCurrentLevelConfig_addScore:
  "getCurrentLevelConfig (addScore p g) = getCurrentLevelConfig g"
  by (rule getCurrentLevelConfig_cong) (rule currentLevel_addScore)

lemma state_completeLevel: "state (completeLevel g) = LEVEL_COMPLETE"
  by (simp add: completeLevel_def setState_def)

lemma state_addScore:
  "state (addScore p g) =
    (if scoreToComplete (getCurrentLevelConfig g) \<le> score g + p then LEVEL_COMPLETE else state g)"
  by (simp add: addScore_def state_completeLevel Let_def getCurrentLevelConfig_def)

lemma startLevel_valid:
  assumes "0 \<le> i" "i < int (length LEVELS)"
  shows "startLevel i g =
    g\<lparr>currentLevel := i, score := 0, timeRemaining := timeLimit (LEVELS ! nat i),
      state := PLAYING, notified := notified g @ [StateChange PLAYING, ScoreChange 0]\<rparr>"
  using assms by (simp add: startLevel_def setState_def getCurrentLevelConfig_def Let_def)

lemma startLevel_invalid:
  assumes "i < 0 \<or> int (length LEVELS) \<le> i"
  shows "startLevel i g = startLevel 0 g"
  using assms by (auto simp add: startLevel_def)

lemma updateTime_not_playing: "state g \<noteq> PLAYING \<Longrightarrow> updateTime delta g = g"
  by (simp add: updateTime_def)

lemma updateTime_running:
  "state g = PLAYING \<Longrightarrow> 0 < timeRemaining g - delta \<Longrightarrow>
   updateTime delta g =
     g\<lparr>timeRemaining := timeRemaining g - delta,
       notified := notified g @ [TimeChange (timeRemaining g - delta)]\<rparr>"
  by (simp add: updateTime_def Let_def)

lemma updateTime_expired:
  "state g = PLAYING \<Longrightarrow> timeRemaining g - delta \<le> 0 \<Longrightarrow>
   updateTime delta g =
     g\<lparr>timeRemaining := 0, state := GAME_OVER,
       notified := notified g @ [TimeChange (timeRemaining g - delta), StateChange GAME_OVER]\<rparr>"
  by (simp add: updateTime_def Let_def gameOver_def setState_def)

lemma timeRemaining_updateTime_nonneg:
  "0 \<le> timeRemaining g \<Longrightarrow> 0 \<le> timeRemaining (updateTime delta g)"
  by (simp add: updateTime_def Let_def gameOver_def setState_def)

lemma level0: "LEVELS ! 0 = \<lparr>level_id = 1, name = ''Beginner'', description = ''Learn the basics'',
      targetCount = 3, targetSpeed = 0, scoreToComplete = 30, timeLimit = 60,
      movingTargets = False\<rparr>"
  by (simp add: LEVELS_def)

lemma started0: "startLevel 0 gameManager = gameManager\<lparr>currentLevel := 0, score := 0, timeRemaining := 60,
      state := PLAYING, notified := [StateChange PLAYING, ScoreChange 0]\<rparr>"
  by (simp add: startLevel_valid length_LEVELS level0 gameManager_fields)

















lemma addScore_cases:
  "addScore p g =
    (if scoreToComplete (getCurrentLevelConfig g) \<le> score g + p
     then completeLevel
            (g\<lparr>score := score g + p, notified := notified g @ [ScoreChange (score g + p)]\<rparr>)
     else g\<lparr>score := score g + p, notified := notified g @ [ScoreChange (score g + p)]\<rparr>)"
  by (simp add: addScore_def Let_def getCurrentLevelConfig_def)








section \<open>Basic facts about the arena\<close>


lemma notified_completeLevel:
  "notified (completeLevel g) = notified g @ [StateChange LEVEL_COMPLETE]"
  by (simp add: completeLevel_def setState_def saveSettings_def split: option.splits)

lemma notified_addScore:
  "notified (addScore p g) =
    notified g @
      (if scoreToComplete (getCurrentLevelConfig g) \<le> score g + p
       then [ScoreChange (score g + p), StateChange LEVEL_COMPLETE]
       else [ScoreChange (score g + p)])"
  by (simp add: addScore_cases notified_completeLevel)

lemma call_addScore: "call (addScore p) w = w\<lparr>gm := addScore p (gm w)\<rparr>"
  by (simp add: call_def Let_def notified_addScore)

lemma notified_updateTime:
  "notified (updateTime d g) =
    notified g @
      (if state g \<noteq> PLAYING then []
       else if timeRemaining g - d \<le> 0
            then [TimeChange (timeRemaining g - d), StateChange GAME_OVER]
            else [TimeChange (timeRemaining g - d)])"
  by (simp add: updateTime_def Let_def gameOver_def setState_def)

lemma call_updateTime: "call (updateTime d) w = w\<lparr>gm := updateTime d (gm w)\<rparr>"
  by (simp add: call_def Let_def notified_updateTime)

lemma distanceTo_less_1: "distanceTo a b < 1 \<longleftrightarrow> distanceToSquared a b < 1"
  by (simp add: distanceTo_def)


lemma delete_bullet_twice: "delete_bullet u (delete_bullet u bs) = delete_bullet u bs"
  by (simp add: delete_bullet_def)

lemma fold_test_target:
  "fold (test_target b) its w =
    w\<lparr>gm := (addScore 10 ^^ length (filter (\<lambda>it. distanceTo (position (snd it)) (position b) < 1) its)) (gm w),
      bullets := (if filter (\<lambda>it. distanceTo (position (snd it)) (position b) < 1) its = []
                  then bullets w else delete_bullet (uuid b) (bullets w)),
      tweens := tweens w @ map fst (filter (\<lambda>it. distanceTo (position (snd it)) (position b) < 1) its)\<rparr>"
proof (induction its arbitrary: w)
  case Nil
  show ?case by simp
next
  case (Cons it its)
  show ?case
  proof (cases "distanceTo (position (snd it)) (position b) < 1")
    case True
    then have step: "test_target b it w =
        w\<lparr>bullets := delete_bullet (uuid b) (bullets w), tweens := tweens w @ [fst it],
          gm := addScore 10 (gm w)\<rparr>"
      by (simp add: test_target_def call_addScore)
    from True show ?thesis
      by (simp add: Cons.IH step funpow_swap1 delete_bullet_twice)
  next
    case False
    then have step: "test_target b it w = w"
      by (simp add: test_target_def)
    from False show ?thesis
      by (simp add: Cons.IH step)
  qed
qed

lemma update_bullet_expired:
  "timeToLive b < 0 \<Longrightarrow>
   update_bullet delta b w = w\<lparr>bullets := delete_bullet (uuid b) (bullets w)\<rparr>"
  by (simp add: update_bullet_def)

lemma uuid_advance: "uuid (advance delta b) = uuid b"
  by (simp add: advance_def)

lemma update_bullet_live:
  assumes "\<not> timeToLive b < 0"
  shows "update_bullet delta b w =
     w\<lparr>gm := (addScore 10 ^^ length (in_range (targets w) (advance delta b))) (gm w),
       bullets := (if in_range (targets w) (advance delta b) = []
                   then mutate_bullet (advance delta b) (bullets w)
                   else delete_bullet (uuid b) (mutate_bullet (advance delta b) (bullets w))),
       tweens := tweens w @ map fst (in_range (targets w) (advance delta b))\<rparr>"
proof -
  have "update_bullet delta b w =
      fold (test_target (advance delta b))
        (filter (\<lambda>it. visible (snd it)) (enumerate 0 (targets w)))
        (w\<lparr>bullets := mutate_bullet (advance delta b) (bullets w)\<rparr>)"
    using assms by (simp add: update_bullet_def Let_def advance_def)
  then show ?thesis
    by (simp add: fold_test_target in_range_def uuid_advance)
qed

lemma targets_update_bullet: "targets (update_bullet delta b w) = targets w"
  by (cases "timeToLive b < 0") (simp_all add: update_bullet_expired update_bullet_live)

lemma delete_bullet_middle:
  assumes "distinct (map uuid (pre @ b # bs))" "uuid b' = uuid b"
  shows "delete_bullet (uuid b) (pre @ b' # bs) = pre @ bs"
proof -
  have "\<forall>x \<in> set pre \<union> set bs. uuid x \<noteq> uuid b"
    using assms(1) by (fastforce simp: image_iff)
  then show ?thesis
    using assms(2) by (simp add: delete_bullet_def filter_id_conv)
qed

lemma mutate_bullet_middle:
  assumes "distinct (map uuid (pre @ b # bs))" "uuid b' = uuid b"
  shows "mutate_bullet b' (pre @ b # bs) = pre @ b' # bs"
proof -
  have "\<forall>x \<in> set pre \<union> set bs. uuid x \<noteq> uuid b'"
    using assms by (fastforce simp: image_iff)
  then have "map (\<lambda>b. if uuid b = uuid b' then b' else b) pre = pre"
    "map (\<lambda>b. if uuid b = uuid b' then b' else b) bs = bs"
    by (simp_all add: map_idI)
  then show ?thesis
    using assms(2) by (simp add: mutate_bullet_def)
qed

lemma funpow_funpow: "(f ^^ n) ((f ^^ m) x) = (f ^^ (m + n)) x"
  by (induction n) simp_all

lemma fold_update_bullet:
  assumes "bullets w = pre @ bs" "distinct (map uuid (pre @ bs))"
  shows "fold (update_bullet delta) bs w =
    w\<lparr>gm := (addScore 10 ^^ length (concat (map (in_range (targets w)) (moved_bullets delta bs)))) (gm w),
      bullets := pre @ filter (\<lambda>b. in_range (targets w) b = []) (moved_bullets delta bs),
      tweens := tweens w @ map fst (concat (map (in_range (targets w)) (moved_bullets delta bs)))\<rparr>"
  using assms
proof (induction bs arbitrary: w pre)
  case Nil
  then show ?case by (simp add: moved_bullets_def)
next
  case (Cons b bs)
  show ?case
  proof (cases "timeToLive b < 0")
    case True
    let ?w1 = "w\<lparr>bullets := pre @ bs\<rparr>"
    have del: "delete_bullet (uuid b) (bullets w) = pre @ bs"
      using Cons.prems delete_bullet_middle [of pre b bs b] by simp
    have step: "update_bullet delta b w = ?w1"
      using True by (simp add: update_bullet_expired del)
    have "distinct (map uuid (pre @ bs))" using Cons.prems(2) by simp
    from Cons.IH [of ?w1 pre, OF _ this] True show ?thesis
      by (simp add: step moved_bullets_def)
  next
    case False
    let ?b' = "advance delta b"
    have mut: "mutate_bullet ?b' (bullets w) = pre @ ?b' # bs"
      using Cons.prems mutate_bullet_middle [of pre b bs ?b'] by (simp add: uuid_advance)
    show ?thesis
    proof (cases "in_range (targets w) ?b' = []")
      case True
      let ?w1 = "w\<lparr>bullets := (pre @ [?b']) @ bs\<rparr>"
      have step: "update_bullet delta b w = ?w1"
        using False True by (simp add: update_bullet_live mut)
      have "distinct (map uuid ((pre @ [?b']) @ bs))"
        using Cons.prems(2) by (simp add: uuid_advance)
      from Cons.IH [of ?w1 "pre @ [?b']", OF _ this] False True show ?thesis
        by (simp add: step moved_bullets_def)
    next
      case hit: False
      let ?w1 = "w\<lparr>gm := (addScore 10 ^^ length (in_range (targets w) ?b')) (gm w),
        bullets := pre @ bs, tweens := tweens w @ map fst (in_range (targets w) ?b')\<rparr>"
      have del: "delete_bullet (uuid b) (pre @ ?b' # bs) = pre @ bs"
        using Cons.prems delete_bullet_middle [of pre b bs ?b'] by (simp add: uuid_advance)
      have step: "update_bullet delta b w = ?w1"
        using False hit by (simp add: update_bullet_live mut del)
      have "distinct (map uuid (pre @ bs))" using Cons.prems(2) by simp
      from Cons.IH [of ?w1 pre, OF _ this] False hit show ?thesis
        by (simp add: step moved_bullets_def funpow_funpow)
    qed
  qed
qed

lemma score_funpow_addScore: "score ((addScore p ^^ n) g) = score g + int n * p"
  by (induction n) (simp_all add: score_addScore algebra_simps)

section \<open>The claims about the controller\<close>





text \<open>
  C2, as stated, fails for the value passed to the time observer: updateTime calls the
  observer with the difference before it clamps. With a quarter of a second left, a
  frame of half a second reports \<open>- 1 / 4\<close>.
\<close>

theorem observer_sees_negative_time_counterexample:
  "notified (updateTime (1 / 2) (updateTime (239 / 4) (startLevel 0 gameManager))) =
     [StateChange PLAYING, ScoreChange 0, TimeChange (1 / 4), TimeChange (- (1 / 4)),
      StateChange GAME_OVER]"
  by (simp add: started0 updateTime_running updateTime_expired gameManager_fields)

text \<open>
  C2, amended: while Playing, updateTime(delta) subtracts delta from timeRemaining and
  passes the difference, unclamped, to the time observer; if the difference is at most 0
  it then stores 0 and moves to GameOver (notifying the state observer). When the state
  is not Playing nothing changes and no observer is called. The stored timeRemaining is
  never negative after the call when it was not negative before; the value the observer
  receives is negative whenever delta exceeds the time left.
\<close>

theorem updateTime_clamps_after_notifying:
  "(state g = PLAYING \<and> 0 < timeRemaining g - delta \<longrightarrow>
      updateTime delta g =
        g\<lparr>timeRemaining := timeRemaining g - delta,
          notified := notified g @ [TimeChange (timeRemaining g - delta)]\<rparr>)
   \<and> (state g = PLAYING \<and> timeRemaining g - delta \<le> 0 \<longrightarrow>
      updateTime delta g =
        g\<lparr>timeRemaining := 0, state := GAME_OVER,
          notified := notified g @ [TimeChange (timeRemaining g - delta), StateChange GAME_OVER]\<rparr>)
   \<and> (state g \<noteq> PLAYING \<longrightarrow> updateTime delta g = g)
   \<and> (0 \<le> timeRemaining g \<longrightarrow> 0 \<le> timeRemaining (updateTime delta g))"
  using updateTime_running [of g delta] updateTime_expired [of g delta]
    updateTime_not_playing [of g delta] timeRemaining_updateTime_nonneg [of g delta]
  by blast

theorem updateTime_clamps_after_notifying_witness:
  "state (startLevel 0 gameManager) = PLAYING
   \<and> timeRemaining (updateTime (239 / 4) (startLevel 0 gameManager)) = 1 / 4
   \<and> state (updateTime (239 / 4) (startLevel 0 gameManager)) = PLAYING
   \<and> timeRemaining (updateTime 61 (startLevel 0 gameManager)) = 0
   \<and> state (updateTime 61 (startLevel 0 gameManager)) = GAME_OVER
   \<and> state gameManager = MENU
   \<and> updateTime 61 gameManager = gameManager
   \<and> 0 \<le> timeRemaining (updateTime 61 (startLevel 0 gameManager))"
  using updateTime_clamps_after_notifying [of "startLevel 0 gameManager" "239 / 4"]
    updateTime_clamps_after_notifying [of "startLevel 0 gameManager" 61]
    updateTime_clamps_after_notifying [of gameManager 61]
  by (simp add: started0 gameManager_fields)

text \<open>
  C3, as stated, fails: neither method validates its argument. On a level just started,
  addScore(-5) leaves the score at -5 and updateTime(-1) raises the time left from 60
  to 61.
\<close>

theorem negative_arguments_accepted_counterexample:
  "score (addScore (- 5) (startLevel 0 gameManager)) = - 5
   \<and> score (startLevel 0 gameManager) = 0
   \<and> timeRemaining (updateTime (- 1) (startLevel 0 gameManager)) = 61
   \<and> timeRemaining (startLevel 0 gameManager) = 60"
  by (simp add: score_addScore started0 updateTime_running)

text \<open>
  C3, amended: addScore with negative points and updateTime with a negative delta are
  accepted like any other argument and there is no failure result: addScore lowers the
  score by the amount, and updateTime while Playing raises timeRemaining by the amount
  and passes the new value to the time observer.
\<close>

theorem negative_arguments_change_state:
  "(points < 0 \<longrightarrow>
      score (addScore points g) = score g + points \<and> score (addScore points g) < score g)
   \<and> (delta < 0 \<and> state g = PLAYING \<and> 0 \<le> timeRemaining g \<longrightarrow>
      updateTime delta g =
        g\<lparr>timeRemaining := timeRemaining g - delta,
          notified := notified g @ [TimeChange (timeRemaining g - delta)]\<rparr>
      \<and> timeRemaining g < timeRemaining (updateTime delta g))"
  by (simp add: score_addScore updateTime_running)

theorem negative_arguments_change_state_witness:
  "(- 5 :: int) < 0 \<and> score (addScore (- 5) (startLevel 0 gameManager)) = - 5
   \<and> (- 1 :: real) < 0 \<and> state (startLevel 0 gameManager) = PLAYING
   \<and> timeRemaining (startLevel 0 gameManager) = 60
   \<and> timeRemaining (updateTime (- 1) (startLevel 0 gameManager)) = 61"
  using negative_arguments_change_state [of "- 5" "startLevel 0 gameManager" "- 1"]
  by (simp add: started0)

text \<open>
  C6: for a valid index i, startLevel(i) sets the score to 0, the state to Playing, the
  level index to i and timeRemaining to the time limit of level i; for a negative index
  or one past the catalog, startLevel does exactly what startLevel(0) does.
\<close>

theorem startLevel_resets_session:
  "(0 \<le> i \<and> i < int (length LEVELS) \<longrightarrow>
      score (startLevel i g) = 0 \<and> state (startLevel i g) = PLAYING
      \<and> currentLevel (startLevel i g) = i
      \<and> timeRemaining (startLevel i g) = timeLimit (LEVELS ! nat i))
   \<and> (i < 0 \<or> int (length LEVELS) \<le> i \<longrightarrow> startLevel i g = startLevel 0 g)"
  using startLevel_valid [of i g] startLevel_invalid [of i g] by simp

theorem startLevel_resets_session_witness:
  "(0 :: int) \<le> 2 \<and> 2 < int (length LEVELS)
   \<and> score (startLevel 2 (addScore 10 gameManager)) = 0
   \<and> state (startLevel 2 (addScore 10 gameManager)) = PLAYING
   \<and> currentLevel (startLevel 2 (addScore 10 gameManager)) = 2
   \<and> timeRemaining (startLevel 2 (addScore 10 gameManager)) = 45
   \<and> int (length LEVELS) \<le> 5
   \<and> startLevel 5 gameManager = startLevel 0 gameManager
   \<and> startLevel (- 1) gameManager = startLevel 0 gameManager"
  using startLevel_resets_session [of 2 "addScore 10 gameManager"]
    startLevel_resets_session [of 5 gameManager]
    startLevel_resets_session [of "- 1" gameManager]
  by (simp add: length_LEVELS) (simp add: LEVELS_def)




text \<open>
  C10: getCurrentLevelConfig returns a level of the catalog for every integer value of
  the level index: the first level when the index is negative or past the end, the
  indexed level otherwise. It is the catalog's \<open>get\<close> at the clamped index, which
  never yields OutOfRange.
\<close>

theorem getCurrentLevelConfig_total:
  "getCurrentLevelConfig g \<in> set LEVELS
   \<and> catalog_get
        (if currentLevel g < 0 \<or> int (length LEVELS) \<le> currentLevel g then 0
         else currentLevel g) = Inr (getCurrentLevelConfig g)
   \<and> (currentLevel g < 0 \<or> int (length LEVELS) \<le> currentLevel g \<longrightarrow>
        getCurrentLevelConfig g = hd LEVELS)
   \<and> (0 \<le> currentLevel g \<and> currentLevel g < int (length LEVELS) \<longrightarrow>
        getCurrentLevelConfig g = LEVELS ! nat (currentLevel g))"
proof -
  have "getCurrentLevelConfig g \<in> set LEVELS"
    by (simp add: getCurrentLevelConfig_cases length_LEVELS)
  moreover have "hd LEVELS = LEVELS ! 0" by (simp add: LEVELS_def)
  ultimately show ?thesis
    by (simp add: catalog_get_def getCurrentLevelConfig_def length_LEVELS)
qed

theorem getCurrentLevelConfig_total_witness:
  "int (length LEVELS) \<le> currentLevel (gameManager\<lparr>currentLevel := 7\<rparr>)
   \<and> getCurrentLevelConfig (gameManager\<lparr>currentLevel := 7\<rparr>) = hd LEVELS
   \<and> currentLevel (gameManager\<lparr>currentLevel := - 3\<rparr>) < 0
   \<and> getCurrentLevelConfig (gameManager\<lparr>currentLevel := - 3\<rparr>) = hd LEVELS
   \<and> catalog_get 7 = Inl OutOfRange
   \<and> catalog_get (- 3) = Inl OutOfRange
   \<and> 0 \<le> currentLevel (gameManager\<lparr>currentLevel := 4\<rparr>)
   \<and> currentLevel (gameManager\<lparr>currentLevel := 4\<rparr>) < int (length LEVELS)
   \<and> getCurrentLevelConfig (gameManager\<lparr>currentLevel := 4\<rparr>) = LEVELS ! 4"
proof -
  let ?high = "gameManager\<lparr>currentLevel := 7\<rparr>"
  let ?low = "gameManager\<lparr>currentLevel := - 3\<rparr>"
  let ?last = "gameManager\<lparr>currentLevel := 4\<rparr>"
  have high: "currentLevel ?high < 0 \<or> int (length LEVELS) \<le> currentLevel ?high"
    by (simp add: length_LEVELS)
  have low: "currentLevel ?low < 0 \<or> int (length LEVELS) \<le> currentLevel ?low"
    by simp
  have last: "0 \<le> currentLevel ?last \<and> currentLevel ?last < int (length LEVELS)"
    by (simp add: length_LEVELS)
  note first = getCurrentLevelConfig_total [THEN conjunct2, THEN conjunct2, THEN conjunct1]
  note inside = getCurrentLevelConfig_total [THEN conjunct2, THEN conjunct2, THEN conjunct2]
  have "getCurrentLevelConfig ?high = hd LEVELS"
    using first [of ?high] high by (rule mp)
  moreover have "getCurrentLevelConfig ?low = hd LEVELS"
    using first [of ?low] low by (rule mp)
  moreover have "getCurrentLevelConfig ?last = LEVELS ! nat (currentLevel ?last)"
    using inside [of ?last] last by (rule mp)
  moreover have "catalog_get 7 = Inl OutOfRange" "catalog_get (- 3) = Inl OutOfRange"
    by (simp_all add: catalog_get_def length_LEVELS)
  ultimately show ?thesis
    using high low last by simp
qed

lemma gm_update_bullet: "\<exists>n. gm (update_bullet delta b w) = (addScore 10 ^^ n) (gm w)"
proof (cases "timeToLive b < 0")
  case True
  then have "gm (update_bullet delta b w) = (addScore 10 ^^ 0) (gm w)"
    by (simp add: update_bullet_expired)
  then show ?thesis by blast
next
  case False
  then have "gm (update_bullet delta b w) =
      (addScore 10 ^^ length (in_range (targets w) (advance delta b))) (gm w)"
    by (simp add: update_bullet_live)
  then show ?thesis by blast
qed

lemma gm_fold_update_bullet:
  "\<exists>n. gm (fold (update_bullet delta) bs w) = (addScore 10 ^^ n) (gm w)"
proof (induction bs arbitrary: w)
  case Nil
  have "gm (fold (update_bullet delta) [] w) = (addScore 10 ^^ 0) (gm w)" by simp
  then show ?case by blast
next
  case (Cons b bs)
  obtain m where m: "gm (update_bullet delta b w) = (addScore 10 ^^ m) (gm w)"
    using gm_update_bullet by blast
  obtain n where n: "gm (fold (update_bullet delta) bs (update_bullet delta b w)) =
      (addScore 10 ^^ n) (gm (update_bullet delta b w))"
    using Cons.IH by blast
  have "gm (fold (update_bullet delta) (b # bs) w) = (addScore 10 ^^ (m + n)) (gm w)"
    by (simp add: n m funpow_funpow)
  then show ?case by blast
qed

lemma gm_updateBullets: "\<exists>n. gm (updateBullets delta w) = (addScore 10 ^^ n) (gm w)"
proof (cases "state (gm w) = PLAYING")
  case True
  then show ?thesis using gm_fold_update_bullet [of delta "bullets w" w]
    by (simp add: updateBullets_def)
next
  case False
  then have "gm (updateBullets delta w) = (addScore 10 ^^ 0) (gm w)"
    by (simp add: updateBullets_def)
  then show ?thesis by blast
qed

lemma gm_updateTargets: "gm (updateTargets delta w) = gm w"
  by (simp add: updateTargets_def Let_def)

lemma gm_handleBlasterInput: "gm (handleBlasterInput shot w) = gm w"
  by (simp add: handleBlasterInput_def split: option.splits)

lemma timeRemaining_addScore: "timeRemaining (addScore p g) = timeRemaining g"
  by (simp add: addScore_cases completeLevel_def setState_def saveSettings_def
      split: option.splits)

lemma timeRemaining_funpow_addScore:
  "timeRemaining ((addScore p ^^ n) g) = timeRemaining g"
  by (induction n) (simp_all add: timeRemaining_addScore)

lemma currentLevel_funpow_addScore: "currentLevel ((addScore p ^^ n) g) = currentLevel g"
  by (induction n) (simp_all add: currentLevel_addScore)

lemma funpow_addScore_consistent:
  assumes "score ((addScore 10 ^^ n) g) \<noteq> score g"
    and "scoreToComplete (getCurrentLevelConfig g) \<le> score ((addScore 10 ^^ n) g)"
  shows "state ((addScore 10 ^^ n) g) = LEVEL_COMPLETE"
proof (cases n)
  case 0
  with assms(1) show ?thesis by simp
next
  case (Suc m)
  let ?g = "(addScore 10 ^^ m) g"
  have "getCurrentLevelConfig ?g = getCurrentLevelConfig g"
    by (rule getCurrentLevelConfig_cong) (rule currentLevel_funpow_addScore)
  with assms(2) Suc show ?thesis
    by (simp add: state_addScore score_addScore)
qed

lemma onFrame_from_timer:
  "onFrame delta inp w =
    (let w5 = updateTargets delta (updateBullets delta
                (handleBlasterInput (trigger inp) (frame_after_timer delta inp w)))
     in w5\<lparr>targets := gsap_tick inp delta (targets w5)\<rparr>)"
  by (simp add: onFrame_def frame_after_timer_def Let_def)

lemma gm_onFrame:
  "\<exists>n. gm (onFrame delta inp w) = (addScore 10 ^^ n) (gm (frame_after_timer delta inp w))"
  using gm_updateBullets [of delta "handleBlasterInput (trigger inp) (frame_after_timer delta inp w)"]
  by (simp add: onFrame_from_timer Let_def gm_updateTargets gm_handleBlasterInput)

lemma onFrame_not_playing:
  assumes "state (gm (frame_after_timer delta inp w)) \<noteq> PLAYING"
  shows "onFrame delta inp w =
    (frame_after_timer delta inp w)
      \<lparr>targets := gsap_tick inp delta (targets (frame_after_timer delta inp w))\<rparr>"
  using assms
  by (simp add: onFrame_from_timer Let_def handleBlasterInput_def updateBullets_def
      updateTargets_def)

lemma gm_frame_after_timer:
  "gm (frame_after_timer delta inp w) = updateTime delta (gm (handleUIInteraction (clicked inp) w))"
  by (simp add: frame_after_timer_def call_updateTime)



lemma gm_near_goal:
  "gm near_goal = gameManager\<lparr>currentLevel := 0, score := 20, timeRemaining := 60,
      state := PLAYING,
      notified := [StateChange PLAYING, ScoreChange 0, ScoreChange 10, ScoreChange 20]\<rparr>"
  by (simp add: near_goal_def started0 addScore_cases getCurrentLevelConfig_cases level0
      gameManager_fields)

lemma gm_out_of_time:
  "gm out_of_time = gameManager\<lparr>currentLevel := 0, score := 0, timeRemaining := 1 / 16,
      state := PLAYING,
      notified := [StateChange PLAYING, ScoreChange 0, TimeChange (1 / 16)]\<rparr>"
  by (simp add: out_of_time_def started0 updateTime_running gameManager_fields)

lemma random_okD:
  assumes "random_ok w n" "random_pos w \<le> k" "k < random_pos w + n"
  shows "0 \<le> random_src w k \<and> random_src w k < 1"
  using assms by (simp add: random_ok_def list_all_iff)

lemma place_target_placed:
  assumes "\<forall>j < 3. 0 \<le> random_src w (random_pos w + j) \<and> random_src w (random_pos w + j) < 1"
  shows "placed levelConfig (place_target levelConfig w target)"
proof -
  have r: "0 \<le> random_src w (random_pos w + j) \<and> random_src w (random_pos w + j) < 1"
    if "j < 3" for j
    using assms that by blast
  from r [of 0] r [of 1] r [of 2] show ?thesis
    by (simp add: placed_def place_target_def Let_def)
qed

lemma round_keeps:
  "targetModel (initializeTargets_round cfg i w) = targetModel w"
  "random_src (initializeTargets_round cfg i w) = random_src w"
  "random_pos w \<le> random_pos (initializeTargets_round cfg i w)"
  "random_pos (initializeTargets_round cfg i w) \<le> random_pos w + 5"
  by (simp_all add: initializeTargets_round_def split: option.splits)

text \<open>The state of the pool after the first \<open>n\<close> of \<open>N\<close> rounds of the loop.\<close>

lemma rounds_invariant:
  assumes ok: "random_ok w (5 * N)" and hidden: "list_all (\<lambda>t. \<not> visible t) (targets w)"
    and n: "n \<le> N"
  shows "targetModel (fold (initializeTargets_round cfg) [0..<n] w) = targetModel w
    \<and> random_src (fold (initializeTargets_round cfg) [0..<n] w) = random_src w
    \<and> random_pos w \<le> random_pos (fold (initializeTargets_round cfg) [0..<n] w)
    \<and> random_pos (fold (initializeTargets_round cfg) [0..<n] w) \<le> random_pos w + 5 * n
    \<and> length (targets (fold (initializeTargets_round cfg) [0..<n] w)) =
        (if targetModel w = None then length (targets w) else max (length (targets w)) n)
    \<and> (\<forall>i < length (targets (fold (initializeTargets_round cfg) [0..<n] w)).
          if i < n then placed cfg (targets (fold (initializeTargets_round cfg) [0..<n] w) ! i)
          else \<not> visible (targets (fold (initializeTargets_round cfg) [0..<n] w) ! i))"
  using n
proof (induction n)
  case 0
  from hidden show ?case by (simp add: list_all_length)
next
  case (Suc n)
  let ?W = "fold (initializeTargets_round cfg) [0..<n] w"
  let ?W' = "initializeTargets_round cfg n ?W"
  have fold_step: "fold (initializeTargets_round cfg) [0..<Suc n] w = ?W'"
    by simp
  from Suc.prems have "n \<le> N" by simp
  with Suc.IH have model: "targetModel ?W = targetModel w"
    and src: "random_src ?W = random_src w"
    and pos: "random_pos w \<le> random_pos ?W" "random_pos ?W \<le> random_pos w + 5 * n"
    and len: "length (targets ?W) =
      (if targetModel w = None then length (targets w) else max (length (targets w)) n)"
    and each: "\<And>i. i < length (targets ?W) \<Longrightarrow>
      (if i < n then placed cfg (targets ?W ! i) else \<not> visible (targets ?W ! i))"
    by simp_all
  have drawn: "\<forall>j < 3. 0 \<le> random_src ?W (random_pos ?W + j)
      \<and> random_src ?W (random_pos ?W + j) < 1"
  proof (intro allI impI)
    fix j :: nat
    assume "j < 3"
    with pos Suc.prems have "random_pos w \<le> random_pos ?W + j"
      "random_pos ?W + j < random_pos w + 5 * N"
      by simp_all
    with random_okD [OF ok] show "0 \<le> random_src ?W (random_pos ?W + j)
        \<and> random_src ?W (random_pos ?W + j) < 1"
      by (simp add: src)
  qed
  have keep: "targetModel ?W' = targetModel w" "random_src ?W' = random_src w"
    "random_pos w \<le> random_pos ?W'" "random_pos ?W' \<le> random_pos w + 5 * Suc n"
    using model src pos round_keeps(3) [of ?W cfg n] round_keeps(4) [of cfg n ?W]
    by (simp_all add: round_keeps(1,2))
  consider (reuse) "n < length (targets ?W)"
    | (grow) model' where "\<not> n < length (targets ?W)" "targetModel ?W = Some model'"
    | (skip) "\<not> n < length (targets ?W)" "targetModel ?W = None"
    by (cases "targetModel ?W") auto
  then have "length (targets ?W') =
      (if targetModel w = None then length (targets w) else max (length (targets w)) (Suc n))
    \<and> (\<forall>i < length (targets ?W').
          if i < Suc n then placed cfg (targets ?W' ! i) else \<not> visible (targets ?W' ! i))"
  proof cases
    case reuse
    then have ts: "targets ?W' = (targets ?W)[n := place_target cfg ?W (targets ?W ! n)]"
      by (simp add: initializeTargets_round_def)
    have "length (targets ?W') =
        (if targetModel w = None then length (targets w) else max (length (targets w)) (Suc n))"
      using reuse len by (auto simp: ts split: if_splits)
    moreover have "if i < Suc n then placed cfg (targets ?W' ! i) else \<not> visible (targets ?W' ! i)"
      if "i < length (targets ?W')" for i
    proof (cases "i = n")
      case True
      with reuse show ?thesis by (simp add: ts place_target_placed [OF drawn])
    next
      case False
      with that each [of i] show ?thesis by (auto simp: ts)
    qed
    ultimately show ?thesis by blast
  next
    case grow
    then have ts: "targets ?W' = targets ?W @ [place_target cfg ?W model']"
      by (simp add: initializeTargets_round_def)
    from grow model len have n: "length (targets ?W) = n" "length (targets w) \<le> n"
      by (auto split: if_splits)
    have "length (targets ?W') =
        (if targetModel w = None then length (targets w) else max (length (targets w)) (Suc n))"
      using grow model n by (auto simp: ts)
    moreover have "if i < Suc n then placed cfg (targets ?W' ! i) else \<not> visible (targets ?W' ! i)"
      if "i < length (targets ?W')" for i
    proof (cases "i = n")
      case True
      have "(targets ?W @ [place_target cfg ?W model']) ! length (targets ?W) =
          place_target cfg ?W model'"
        by (rule nth_append_length)
      with True n(1) show ?thesis by (simp add: ts place_target_placed [OF drawn])
    next
      case False
      with that n have "i < n" by (simp add: ts)
      with each [of i] n show ?thesis by (simp add: ts nth_append)
    qed
    ultimately show ?thesis by blast
  next
    case skip
    then have same: "?W' = ?W"
      by (simp add: initializeTargets_round_def)
    from skip model len have n: "length (targets ?W) = length (targets w)" "length (targets w) \<le> n"
      "targetModel w = None"
      by (auto split: if_splits)
    have "if i < Suc n then placed cfg (targets ?W ! i) else \<not> visible (targets ?W ! i)"
      if "i < length (targets ?W)" for i
      using that each [of i] n by auto
    then show ?thesis using n by (simp add: same)
  qed
  with keep show ?case unfolding fold_step by blast
qed

lemma initializeTargets_pool:
  assumes ok: "random_ok w (5 * targetCount cfg)"
  shows "length (targets (initializeTargets cfg w)) =
      (if targetModel w = None then length (targets w)
       else max (length (targets w)) (targetCount cfg))
    \<and> (\<forall>i < length (targets (initializeTargets cfg w)).
          if i < targetCount cfg then placed cfg (targets (initializeTargets cfg w) ! i)
          else \<not> visible (targets (initializeTargets cfg w) ! i))"
proof -
  let ?w0 = "w\<lparr>targets := map (\<lambda>target. target\<lparr>visible := False\<rparr>) (targets w)\<rparr>"
  have "random_ok ?w0 (5 * targetCount cfg)" using ok by (simp add: random_ok_def)
  moreover have "list_all (\<lambda>t. \<not> visible t) (targets ?w0)"
    by (simp add: list_all_length)
  ultimately have inv: "length (targets (fold (initializeTargets_round cfg) [0..<targetCount cfg] ?w0)) =
        (if targetModel ?w0 = None then length (targets ?w0)
         else max (length (targets ?w0)) (targetCount cfg))
    \<and> (\<forall>i < length (targets (fold (initializeTargets_round cfg) [0..<targetCount cfg] ?w0)).
          if i < targetCount cfg
          then placed cfg (targets (fold (initializeTargets_round cfg) [0..<targetCount cfg] ?w0) ! i)
          else \<not> visible (targets (fold (initializeTargets_round cfg) [0..<targetCount cfg] ?w0) ! i))"
    using rounds_invariant [of ?w0 "targetCount cfg" "targetCount cfg" cfg] by blast
  have eq: "initializeTargets cfg w = fold (initializeTargets_round cfg) [0..<targetCount cfg] ?w0"
    by (simp add: initializeTargets_def)
  have same: "targetModel ?w0 = targetModel w" "length (targets ?w0) = length (targets w)"
    by simp_all
  from inv show ?thesis unfolding eq same .
qed

lemma count_visible:
  assumes "n \<le> length ts"
    and "\<forall>i < length ts. if i < n then visible (ts ! i) else \<not> visible (ts ! i)"
  shows "length (filter visible ts) = n"
proof -
  have "list_all visible (take n ts)"
    using assms by (simp add: list_all_length)
  then have "filter visible (take n ts) = take n ts"
    by (simp add: list_all_iff filter_id_conv)
  moreover have "list_all (\<lambda>t. \<not> visible t) (drop n ts)"
    using assms by (simp add: list_all_length)
  then have "filter visible (drop n ts) = []"
    by (simp add: list_all_iff filter_empty_conv)
  moreover have "filter visible ts = filter visible (take n ts) @ filter visible (drop n ts)"
    by (simp flip: filter_append)
  ultimately show ?thesis using assms(1) by simp
qed

section \<open>The claims about the arena\<close>

text \<open>
  C4 asks that a projectile scores against at most one target in a tick: on the first
  visible target within the radius it is destroyed and exactly one scoring callback of 10
  points is made. The inner loop of updateBullets does not stop at the first hit: it
  deletes the bullet and goes on to the remaining visible targets. In
  \<open>two_close_targets\<close> the one bullet ends the tick a quarter of a unit from each
  of the first two targets; the tick makes two scoring callbacks (score 10, then 20),
  starts a shrink tween on both targets, and leaves no bullet.
\<close>

theorem one_bullet_scores_twice:
  "score (gm (updateBullets (1 / 8) two_close_targets)) = 20
   \<and> notified (gm (updateBullets (1 / 8) two_close_targets)) =
       [StateChange PLAYING, ScoreChange 0, ScoreChange 10, ScoreChange 20]
   \<and> tweens (updateBullets (1 / 8) two_close_targets) = [0, 1]
   \<and> bullets (updateBullets (1 / 8) two_close_targets) = []"
  by (simp add: two_close_targets_def updateBullets_def update_bullet_def test_target_def
      call_addScore started0 Let_def mutate_bullet_def delete_bullet_def add_def
      multiplyScalar_def distanceTo_less_1 distanceToSquared_def power2_eq_square
      addScore_cases getCurrentLevelConfig_cases level0 gameManager_fields)

text \<open>
  C5, as stated, fails: updateBullets tests the time to live before it reduces it. The
  second bullet of \<open>spent_and_late_bullets\<close> has a sixteenth of a second left; in
  a tick of an eighth of a second its time to live falls below 0, and yet it is moved and
  is still live after the tick.
\<close>

theorem late_bullet_survives_counterexample:
  "timeToLive (bullets spent_and_late_bullets ! 1) - 1 / 8 < 0
   \<and> bullets (updateBullets (1 / 8) spent_and_late_bullets) =
       [\<lparr>visible = True, position = \<lparr>vx = 4, vy = 0, vz = - (37 / 4)\<rparr>,
         scale = \<lparr>vx = 1, vy = 1, vz = 1\<rparr>, uuid = 2,
         velocity = \<lparr>vx = 0, vy = 0, vz = - 10\<rparr>, timeToLive = - (1 / 16)\<rparr>]"
  by (simp add: spent_and_late_bullets_def updateBullets_def update_bullet_def test_target_def
      started0 Let_def mutate_bullet_def delete_bullet_def add_def
      multiplyScalar_def distanceTo_less_1 distanceToSquared_def power2_eq_square)

text \<open>
  C5, amended: in an update(delta) while the state is Playing, every projectile whose
  time to live is below 0 on entry is destroyed with no further processing (it is not
  moved and scores nothing); every other projectile is advanced by velocity * delta, has
  its time to live reduced by delta, and is then tested at its new position against the
  visible targets, also when the reduction took its time to live below 0 (it is destroyed
  on the next tick). The projectiles live after the tick are the advanced ones with no
  visible target within the radius; the score grows by 10 for every pair of an advanced
  projectile and a visible target within the radius; the targets are not changed. When
  the state is not Playing the update changes nothing. (The projectiles are keyed by
  uuid, so their uuids are distinct.)
\<close>

theorem updateBullets_tick:
  "(state (gm w) = PLAYING \<and> distinct (map uuid (bullets w)) \<longrightarrow>
      bullets (updateBullets delta w) =
        filter (\<lambda>b. in_range (targets w) b = [])
          (map (advance delta) (filter (\<lambda>b. \<not> timeToLive b < 0) (bullets w)))
      \<and> score (gm (updateBullets delta w)) =
          score (gm w)
          + 10 * int (length (concat (map (in_range (targets w))
              (map (advance delta) (filter (\<lambda>b. \<not> timeToLive b < 0) (bullets w))))))
      \<and> targets (updateBullets delta w) = targets w)
   \<and> (state (gm w) \<noteq> PLAYING \<longrightarrow> updateBullets delta w = w)"
proof -
  have "updateBullets delta w =
      w\<lparr>gm := (addScore 10 ^^ length (concat (map (in_range (targets w)) (moved_bullets delta (bullets w))))) (gm w),
        bullets := filter (\<lambda>b. in_range (targets w) b = []) (moved_bullets delta (bullets w)),
        tweens := tweens w @ map fst (concat (map (in_range (targets w)) (moved_bullets delta (bullets w))))\<rparr>"
    if "state (gm w) = PLAYING" "distinct (map uuid (bullets w))"
    using that fold_update_bullet [of w "[]" "bullets w" delta]
    by (simp add: updateBullets_def)
  then show ?thesis
    by (simp add: score_funpow_addScore moved_bullets_def updateBullets_def)
qed

theorem updateBullets_tick_witness:
  "state (gm spent_and_late_bullets) = PLAYING
   \<and> distinct (map uuid (bullets spent_and_late_bullets))
   \<and> bullets (updateBullets (1 / 8) spent_and_late_bullets) =
       [advance (1 / 8) (bullets spent_and_late_bullets ! 1)]
   \<and> score (gm (updateBullets (1 / 8) spent_and_late_bullets)) = 0
   \<and> state (gm (spent_and_late_bullets\<lparr>gm := gameManager\<rparr>)) = MENU
   \<and> updateBullets (1 / 8) (spent_and_late_bullets\<lparr>gm := gameManager\<rparr>) =
       spent_and_late_bullets\<lparr>gm := gameManager\<rparr>"
  using updateBullets_tick [of spent_and_late_bullets "1 / 8"]
    updateBullets_tick [of "spent_and_late_bullets\<lparr>gm := gameManager\<rparr>" "1 / 8"]
  by (simp add: spent_and_late_bullets_def started0 gameManager_fields in_range_def
      advance_def add_def multiplyScalar_def distanceTo_less_1 distanceToSquared_def
      power2_eq_square)

text \<open>
  C9: in one frame the timer is updated on the state left by the clicks, before any step
  of the arena, and the arena leaves the time alone. When the state after the timer step
  is not Playing (for one, when the time ran out in this frame) the shot, the bullets and
  the targets are skipped entirely: the frame is the state after the timer step, up to
  what the animation library's tick does to the targets. Scoring runs inside the frame:
  if the frame changed the score and the score has reached the goal of the level, the
  state is already LevelComplete when the frame returns.
\<close>

theorem onFrame_timer_first:
  "gm (frame_after_timer delta inp w) =
      updateTime delta (gm (handleUIInteraction (clicked inp) w))
   \<and> timeRemaining (gm (onFrame delta inp w)) =
       timeRemaining (gm (frame_after_timer delta inp w))
   \<and> (state (gm (frame_after_timer delta inp w)) \<noteq> PLAYING \<longrightarrow>
        onFrame delta inp w =
          (frame_after_timer delta inp w)
            \<lparr>targets := gsap_tick inp delta (targets (frame_after_timer delta inp w))\<rparr>)
   \<and> (score (gm (onFrame delta inp w)) \<noteq> score (gm (frame_after_timer delta inp w))
        \<and> scoreToComplete (getCurrentLevelConfig (gm (onFrame delta inp w)))
            \<le> score (gm (onFrame delta inp w)) \<longrightarrow>
        state (gm (onFrame delta inp w)) = LEVEL_COMPLETE)"
proof -
  obtain n where n: "gm (onFrame delta inp w) =
      (addScore 10 ^^ n) (gm (frame_after_timer delta inp w))"
    using gm_onFrame by blast
  have cfg: "getCurrentLevelConfig ((addScore 10 ^^ n) (gm (frame_after_timer delta inp w))) =
      getCurrentLevelConfig (gm (frame_after_timer delta inp w))"
    by (rule getCurrentLevelConfig_cong) (simp add: currentLevel_funpow_addScore)
  have "state (gm (onFrame delta inp w)) = LEVEL_COMPLETE"
    if "score (gm (onFrame delta inp w)) \<noteq> score (gm (frame_after_timer delta inp w))"
      "scoreToComplete (getCurrentLevelConfig (gm (onFrame delta inp w)))
        \<le> score (gm (onFrame delta inp w))"
    using that funpow_addScore_consistent [of n "gm (frame_after_timer delta inp w)"]
    by (simp add: n cfg)
  then show ?thesis
    using onFrame_not_playing [of delta inp w]
    by (simp add: gm_frame_after_timer [symmetric] n timeRemaining_funpow_addScore)
qed

theorem onFrame_timer_first_witness:
  "state (gm (frame_after_timer (1 / 8) idle out_of_time)) = GAME_OVER
   \<and> timeRemaining (gm (onFrame (1 / 8) idle out_of_time)) = 0
   \<and> score (gm (onFrame (1 / 8) idle out_of_time)) = 0
   \<and> bullets (onFrame (1 / 8) idle out_of_time) = bullets two_close_targets
   \<and> score (gm (frame_after_timer (1 / 8) idle near_goal)) = 20
   \<and> score (gm (onFrame (1 / 8) idle near_goal)) = 40
   \<and> scoreToComplete (getCurrentLevelConfig (gm (onFrame (1 / 8) idle near_goal))) = 30
   \<and> state (gm (onFrame (1 / 8) idle near_goal)) = LEVEL_COMPLETE"
proof -
  have timer1: "gm (frame_after_timer (1 / 8) idle out_of_time) =
      gameManager\<lparr>currentLevel := 0, score := 0, timeRemaining := 0, state := GAME_OVER,
        notified := [StateChange PLAYING, ScoreChange 0, TimeChange (1 / 16),
          TimeChange (- (1 / 16)), StateChange GAME_OVER]\<rparr>"
    by (simp add: gm_frame_after_timer idle_def handleUIInteraction_def gm_out_of_time
        updateTime_expired gameManager_fields)
  have rest1: "bullets (frame_after_timer (1 / 8) idle out_of_time) = bullets two_close_targets"
    by (simp add: frame_after_timer_def idle_def handleUIInteraction_def call_updateTime
        out_of_time_def)
  have timer2: "gm (frame_after_timer (1 / 8) idle near_goal) =
      gameManager\<lparr>currentLevel := 0, score := 20, timeRemaining := 479 / 8, state := PLAYING,
        notified := [StateChange PLAYING, ScoreChange 0, ScoreChange 10, ScoreChange 20,
          TimeChange (479 / 8)]\<rparr>"
    by (simp add: gm_frame_after_timer idle_def handleUIInteraction_def gm_near_goal
        updateTime_running gameManager_fields)
  have after2: "frame_after_timer (1 / 8) idle near_goal =
      two_close_targets
        \<lparr>gm := gameManager\<lparr>currentLevel := 0, score := 20, timeRemaining := 479 / 8,
          state := PLAYING,
          notified := [StateChange PLAYING, ScoreChange 0, ScoreChange 10, ScoreChange 20,
            TimeChange (479 / 8)]\<rparr>\<rparr>"
    using timer2
    by (simp add: frame_after_timer_def idle_def handleUIInteraction_def call_updateTime
        near_goal_def)
  have score2: "score (gm (onFrame (1 / 8) idle near_goal)) = 40"
    unfolding onFrame_from_timer Let_def after2
    by (simp add: idle_def handleBlasterInput_def gm_updateTargets two_close_targets_def
        updateBullets_def update_bullet_def test_target_def call_addScore Let_def
        mutate_bullet_def delete_bullet_def add_def multiplyScalar_def distanceTo_less_1
        distanceToSquared_def power2_eq_square score_addScore)
  have cfg2: "scoreToComplete (getCurrentLevelConfig (gm (onFrame (1 / 8) idle near_goal))) = 30"
  proof -
    obtain n where "gm (onFrame (1 / 8) idle near_goal) =
        (addScore 10 ^^ n) (gm (frame_after_timer (1 / 8) idle near_goal))"
      using gm_onFrame by blast
    then have "currentLevel (gm (onFrame (1 / 8) idle near_goal)) = 0"
      by (simp add: currentLevel_funpow_addScore timer2)
    then show ?thesis by (simp add: getCurrentLevelConfig_cases level0)
  qed
  note skipped = onFrame_timer_first [THEN conjunct2, THEN conjunct2, THEN conjunct1]
  note consistent = onFrame_timer_first [THEN conjunct2, THEN conjunct2, THEN conjunct2]
  have frame1: "onFrame (1 / 8) idle out_of_time =
      (frame_after_timer (1 / 8) idle out_of_time)
        \<lparr>targets := gsap_tick idle (1 / 8) (targets (frame_after_timer (1 / 8) idle out_of_time))\<rparr>"
    using skipped [of "1 / 8" idle out_of_time] by (simp add: timer1)
  have state2: "state (gm (onFrame (1 / 8) idle near_goal)) = LEVEL_COMPLETE"
    using consistent [of "1 / 8" idle near_goal] by (simp add: timer2 score2 cfg2)
  show ?thesis
    by (simp add: frame1 state2 timer1 rest1 timer2 score2 cfg2)
qed

text \<open>
  C8, as stated, fails: when the pool has no slot for an index and the target asset has
  not loaded, the loop of initializeTargets skips the index. Before the asset has loaded,
  level 1 asks for three targets and gets none.
\<close>

theorem model_not_loaded_counterexample:
  "targetCount (LEVELS ! 0) = 3
   \<and> targets (initializeTargets (LEVELS ! 0) model_not_loaded) = []"
  by (simp add: level0 initializeTargets_def model_not_loaded_def numeral_3_eq_3
      initializeTargets_round_def)

text \<open>
  C8, amended: initializeTargets(levelConfig) hides all existing targets and then, for
  each index below targetCount, reuses the pool slot if there is one, allocates a new slot
  if the target model has loaded, and skips the index otherwise. When the model has loaded
  or the pool already has targetCount slots, exactly targetCount targets are activated
  (the pool grows to targetCount if it was smaller, and the slots from targetCount on stay
  hidden); when the model has not loaded and the pool is smaller, only the pool's targets
  are activated. Every activated target is visible, at a position with x in [-5, 5],
  y in [1, 3] and z in [-10, -5], with moveSpeed the level's targetSpeed and isMoving the
  level's movingTargets.
\<close>

theorem initializeTargets_activates:
  "(random_ok w (5 * targetCount cfg)
      \<and> (targetModel w \<noteq> None \<or> targetCount cfg \<le> length (targets w)) \<longrightarrow>
      length (targets (initializeTargets cfg w)) = max (length (targets w)) (targetCount cfg)
      \<and> list_all (placed cfg) (take (targetCount cfg) (targets (initializeTargets cfg w)))
      \<and> list_all (\<lambda>t. \<not> visible t) (drop (targetCount cfg) (targets (initializeTargets cfg w)))
      \<and> length (filter visible (targets (initializeTargets cfg w))) = targetCount cfg)
   \<and> (random_ok w (5 * targetCount cfg) \<and> targetModel w = None
        \<and> length (targets w) < targetCount cfg \<longrightarrow>
      length (targets (initializeTargets cfg w)) = length (targets w)
      \<and> list_all (placed cfg) (targets (initializeTargets cfg w))
      \<and> length (filter visible (targets (initializeTargets cfg w))) = length (targets w))"
proof -
  let ?ts = "targets (initializeTargets cfg w)"
  let ?n = "targetCount cfg"
  {
    assume ok: "random_ok w (5 * ?n)" and enough: "targetModel w \<noteq> None \<or> ?n \<le> length (targets w)"
    from initializeTargets_pool [OF ok] enough
    have len: "length ?ts = max (length (targets w)) ?n"
      and each: "\<forall>i < length ?ts. if i < ?n then placed cfg (?ts ! i) else \<not> visible (?ts ! i)"
      by (auto split: if_splits)
    have first: "list_all (placed cfg) (take ?n ?ts)"
      using each by (simp add: list_all_length)
    have rest: "list_all (\<lambda>t. \<not> visible t) (drop ?n ?ts)"
      using each by (simp add: list_all_length)
    have "\<forall>i < length ?ts. if i < ?n then visible (?ts ! i) else \<not> visible (?ts ! i)"
      using each by (auto simp: placed_def)
    with len have "length (filter visible ?ts) = ?n"
      by (intro count_visible) simp_all
    with len first rest have "length ?ts = max (length (targets w)) ?n
      \<and> list_all (placed cfg) (take ?n ?ts) \<and> list_all (\<lambda>t. \<not> visible t) (drop ?n ?ts)
      \<and> length (filter visible ?ts) = ?n"
      by simp
  }
  moreover
  {
    assume ok: "random_ok w (5 * ?n)" and none: "targetModel w = None" and few: "length (targets w) < ?n"
    from initializeTargets_pool [OF ok] none few
    have len: "length ?ts = length (targets w)"
      and each: "\<forall>i < length ?ts. placed cfg (?ts ! i)"
      by auto
    have "list_all visible ?ts"
      using each by (simp add: list_all_length placed_def)
    then have "filter visible ?ts = ?ts"
      by (simp add: list_all_iff filter_id_conv)
    with len each have "length ?ts = length (targets w) \<and> list_all (placed cfg) ?ts
      \<and> length (filter visible ?ts) = length (targets w)"
      by (simp add: list_all_length)
  }
  ultimately show ?thesis by blast
qed

theorem initializeTargets_activates_witness:
  "random_ok pool_of_one (5 * targetCount (LEVELS ! 0)) \<and> targetModel pool_of_one \<noteq> None
   \<and> targetCount (LEVELS ! 0) = 3
   \<and> length (targets (initializeTargets (LEVELS ! 0) pool_of_one)) = 3
   \<and> length (filter visible (targets (initializeTargets (LEVELS ! 0) pool_of_one))) = 3
   \<and> map position (targets (initializeTargets (LEVELS ! 0) pool_of_one)) =
       [\<lparr>vx = 0, vy = 2, vz = - (15 / 2)\<rparr>, \<lparr>vx = 0, vy = 2, vz = - (15 / 2)\<rparr>,
        \<lparr>vx = 0, vy = 2, vz = - (15 / 2)\<rparr>]
   \<and> random_ok model_not_loaded (5 * targetCount (LEVELS ! 0))
   \<and> targetModel model_not_loaded = None
   \<and> length (targets model_not_loaded) < targetCount (LEVELS ! 0)
   \<and> length (filter visible (targets (initializeTargets (LEVELS ! 0) model_not_loaded))) = 0"
proof -
  have ok: "random_ok pool_of_one (5 * targetCount (LEVELS ! 0))"
    "random_ok model_not_loaded (5 * targetCount (LEVELS ! 0))"
    by (simp_all add: random_ok_def pool_of_one_def model_not_loaded_def list_all_iff)
  have model: "targetModel pool_of_one \<noteq> None" "targetModel model_not_loaded = None"
    "length (targets pool_of_one) = 1" "length (targets model_not_loaded) = 0"
    by (simp_all add: pool_of_one_def model_not_loaded_def)
  have places: "map position (targets (initializeTargets (LEVELS ! 0) pool_of_one)) =
       [\<lparr>vx = 0, vy = 2, vz = - (15 / 2)\<rparr>, \<lparr>vx = 0, vy = 2, vz = - (15 / 2)\<rparr>,
        \<lparr>vx = 0, vy = 2, vz = - (15 / 2)\<rparr>]"
    by (simp add: level0 initializeTargets_def pool_of_one_def numeral_3_eq_3
        initializeTargets_round_def place_target_def Let_def)
  from initializeTargets_activates [of pool_of_one "LEVELS ! 0"]
    initializeTargets_activates [of model_not_loaded "LEVELS ! 0"]
  show ?thesis
    using ok model places by (simp add: level0)
qed

end
